theory Spec2Isabelle
  imports Main
begin

section \<open>JavaScript values used by the bot\<close>

text \<open>
  Strings are lists of characters; the model covers code units below 256. Numbers are
  the integer-valued numbers and \<open>NaN\<close>: the timestamps and counters the bot handles
  are integers well below \<open>2^53\<close>, where JavaScript's doubles are exact. An object
  field that may be missing (\<open>undefined\<close> or \<open>null\<close>) is an \<open>option\<close>. An
  exception is the left summand of a result.
\<close>

datatype error = TypeError | SyntaxError | ClientError

datatype number = NaN | Num int

text \<open>\<open>a >= b\<close> on numbers: every comparison with \<open>NaN\<close> is false.\<close>

fun number_ge :: "number \<Rightarrow> number \<Rightarrow> bool" where
  "number_ge (Num a) (Num b) = (b \<le> a)"
| "number_ge _ _ = False"

definition isDigit :: "char \<Rightarrow> bool" where
  "isDigit c = (48 \<le> (of_char c :: nat) \<and> (of_char c :: nat) \<le> 57)"

fun digitsValue :: "int \<Rightarrow> string \<Rightarrow> number" where
  "digitsValue acc [] = Num acc"
| "digitsValue acc (c # cs) =
     (if isDigit c then digitsValue (10 * acc + (int (of_char c) - 48)) cs else NaN)"

text \<open>
  Unary plus on a string (\<open>+statistics.subscriberCount\<close>): the empty string is 0, a
  string of decimal digits is its value. Every other string is \<open>NaN\<close> here;
  JavaScript also reads surrounding white space, signs, fractions, exponents and radix
  prefixes, which the unsigned decimal counters of the channel lookup never carry.
\<close>

definition unaryPlus_string :: "string \<Rightarrow> number" where
  "unaryPlus_string s = digitsValue 0 s"

text \<open>The value of \<open>process.env[k] || 100000\<close>: a non-empty string or the default number.\<close>

datatype strnum = Str string | Number number

definition or_default :: "string option \<Rightarrow> int \<Rightarrow> strnum" where
  "or_default v d = (case v of None \<Rightarrow> Number (Num d)
                     | Some s \<Rightarrow> if s = [] then Number (Num d) else Str s)"

fun unaryPlus :: "strnum \<Rightarrow> number" where
  "unaryPlus (Str s) = unaryPlus_string s"
| "unaryPlus (Number n) = n"

fun showNat :: "nat \<Rightarrow> string" where
  "showNat n = (if n < 10 then [''0123456789'' ! n]
                else showNat (n div 10) @ [''0123456789'' ! (n mod 10)])"

text \<open>\<open>Number.prototype.toString\<close> on the modelled numbers.\<close>

fun number_toString :: "number \<Rightarrow> string" where
  "number_toString NaN = ''NaN''"
| "number_toString (Num i) = (if i < 0 then ''-'' @ showNat (nat (- i)) else showNat (nat i))"

text \<open>
  \<open>parseInt\<close>: an optional sign and the longest prefix of decimal digits; \<open>NaN\<close> when
  there is no digit. (Leading white space and the \<open>0x\<close> prefix, which JavaScript also
  accepts, do not occur in the identifiers the bot stores.)
\<close>

definition parseInt :: "string \<Rightarrow> number" where
  "parseInt s =
     (let neg = (s \<noteq> [] \<and> hd s = CHR ''-'');
          r = (if s \<noteq> [] \<and> (hd s = CHR ''-'' \<or> hd s = CHR ''+'') then tl s else s);
          ds = takeWhile isDigit r
      in if ds = [] then NaN
         else (case digitsValue 0 ds of NaN \<Rightarrow> NaN
               | Num v \<Rightarrow> Num (if neg then - v else v)))"

text \<open>A value interpolated into a template literal: \<open>undefined\<close> prints as such.\<close>

definition interp :: "string option \<Rightarrow> string" where
  "interp v = (case v of None \<Rightarrow> ''undefined'' | Some s \<Rightarrow> s)"

subsection \<open>String operations\<close>

definition startsWith :: "string \<Rightarrow> string \<Rightarrow> bool" where
  "startsWith s p = (take (length p) s = p)"

text \<open>The text before and after the first occurrence of a non-empty separator.\<close>

fun cut :: "string \<Rightarrow> string \<Rightarrow> (string \<times> string) option" where
  "cut sep [] = None"
| "cut sep (c # cs) =
     (if startsWith (c # cs) sep then Some ([], drop (length sep) (c # cs))
      else (case cut sep cs of None \<Rightarrow> None | Some (b, a) \<Rightarrow> Some (c # b, a)))"

definition str_includes :: "string \<Rightarrow> string \<Rightarrow> bool" where
  "str_includes s sep = (cut sep s \<noteq> None)"

text \<open>\<open>s.replace(pat, rep)\<close> with a string pattern: the first occurrence only.\<close>

definition replace_first :: "string \<Rightarrow> string \<Rightarrow> string \<Rightarrow> string" where
  "replace_first pat rep s = (case cut pat s of None \<Rightarrow> s | Some (b, a) \<Rightarrow> b @ rep @ a)"

text \<open>\<open>s.split(sep)[0]\<close> and \<open>s.split(sep)[1]\<close>; the latter is \<open>undefined\<close> when
  \<open>sep\<close> does not occur.\<close>

definition split_0 :: "string \<Rightarrow> string \<Rightarrow> string" where
  "split_0 sep s = (case cut sep s of None \<Rightarrow> s | Some (b, a) \<Rightarrow> b)"

definition split_1 :: "string \<Rightarrow> string \<Rightarrow> string option" where
  "split_1 sep s = (case cut sep s of None \<Rightarrow> None | Some (b, a) \<Rightarrow> Some (split_0 sep a))"

fun join :: "string \<Rightarrow> string list \<Rightarrow> string" where
  "join sep [] = []"
| "join sep [x] = x"
| "join sep (x # y # ys) = x @ sep @ join sep (y # ys)"

section \<open>Data model\<close>

text \<open>A raw reply of the thread: \<open>kind\<close> and the fields of \<open>data\<close> the bot reads.\<close>

record RedditChild =
  kind :: string
  data_author :: "string option"
  data_body :: "string option"
  data_created :: "number option"
  data_created_utc :: "number option"
  data_children :: "string list option"

record Comment =
  author :: "string option"
  body :: "string option"
  created :: "number option"
  created_utc :: "number option"
  youtubeLink :: string

record Snippet =
  description :: "string option"

record Statistics =
  subscriberCount :: "string option"
  viewCount :: "string option"

record Channel =
  snippet :: "Snippet option"
  statistics :: "Statistics option"

record ChannelListResponse =
  items :: "Channel list option"

record ChannelsListParams =
  part :: "string list"
  forUsername :: "string option"
  forHandle :: "string option"
  id_param :: "string list option"

record Verification =
  reddit_comment :: Comment
  youtube_snippet :: Snippet
  youtube_statistics :: "Statistics option"

record ApprovedLink =
  userId :: "string option"
  commentId :: string
  channelLink :: string

record PersistedState =
  lastChecked :: "string option"
  stored_approvedLinks :: "ApprovedLink list"

text \<open>The body of a \<open>selectflair\<close> request, with the path it is posted to.\<close>

record SelectFlair =
  flair_path :: string
  flair_name :: "string option"
  flair_text :: string
  flair_template_id :: "string option"

text \<open>The content of \<open>approved.json\<close>: a document, or text that \<open>JSON.parse\<close> rejects.\<close>

datatype json_file = Malformed | Document PersistedState

text \<open>A moment: milliseconds since the epoch, \<open>None\<close> for an invalid moment.\<close>

type_synonym moment = "int option"

text \<open>
  What the program is linked against and talks to: the environment variables, the two
  helpers of \<open>./util\<close>, the clients of the two platforms (a call returns or throws),
  the regular expression constructor \<open>new RegExp(pattern, "i")\<close> (it throws or gives
  the test of the expression), the clock (its \<open>k\<close>-th reading, in milliseconds), the
  parser \<open>moment.utc(string)\<close>, \<open>moment.utc().subtract(days, "days")\<close> as a function of
  the clock reading, and \<open>Date.prototype.toISOString\<close>.
\<close>

record externals =
  env :: "string \<Rightarrow> string option"
  formatNumber :: "number \<Rightarrow> string"
  formatYoutubeLink :: "string \<Rightarrow> string"
  reddit_get_article :: "string \<Rightarrow> error + RedditChild list list"
  reddit_get_morechildren :: "string \<Rightarrow> string \<Rightarrow> error + RedditChild list"
  reddit_post :: "SelectFlair \<Rightarrow> error option"
  youtube_channels_list :: "ChannelsListParams \<Rightarrow> error + ChannelListResponse"
  RegExp_i :: "string \<Rightarrow> error + (string \<Rightarrow> bool)"
  clock :: "nat \<Rightarrow> int"
  moment_utc_parse :: "string \<Rightarrow> moment"
  moment_subtract_days :: "int \<Rightarrow> string option \<Rightarrow> moment"
  toISOString :: "int \<Rightarrow> string"

text \<open>
  The mutable state: the in-memory list \<open>approvedLinks\<close>, the file \<open>approved.json\<close>
  (\<open>None\<close> when it does not exist), the badge writes issued so far, and how often the
  clock has been read.
\<close>

record state =
  approvedLinks :: "ApprovedLink list"
  approved_json :: "json_file option"
  posted :: "SelectFlair list"
  clock_reads :: nat

subsection \<open>Configuration constants\<close>

definition SUBREDDIT :: "externals \<Rightarrow> string option" where
  "SUBREDDIT X = env X ''SUBREDDIT''"

definition ARTICLE :: "externals \<Rightarrow> string option" where
  "ARTICLE X = env X ''SUBREDDIT_ARTICLE''"

definition PREVIOUS_DAYS :: "externals \<Rightarrow> string option" where
  "PREVIOUS_DAYS X = env X ''PREVIOUS_DAYS''"

definition FIRST_TIER_FLAIR_ID :: "externals \<Rightarrow> string option" where
  "FIRST_TIER_FLAIR_ID X = env X ''FIRST_TIER_FLAIR_TEMPLATE_ID''"

definition FIRST_TIER_EMOJI_ID :: "externals \<Rightarrow> string option" where
  "FIRST_TIER_EMOJI_ID X = env X ''FIRST_TIER_FLAIR_EMOJI_ID''"

definition SECOND_TIER_FLAIR_ID :: "externals \<Rightarrow> string option" where
  "SECOND_TIER_FLAIR_ID X = env X ''SECOND_TIER_FLAIR_TEMPLATE_ID''"

definition SECOND_TIER_EMOJI_ID :: "externals \<Rightarrow> string option" where
  "SECOND_TIER_EMOJI_ID X = env X ''SECOND_TIER_FLAIR_EMOJI_ID''"

definition MINIMUM_SUB_COUNT :: "externals \<Rightarrow> strnum" where
  "MINIMUM_SUB_COUNT X = or_default (env X ''MINIMUM_SUB_COUNT'') 100000"

definition MINIMUM_VIEW_COUNT :: "externals \<Rightarrow> strnum" where
  "MINIMUM_VIEW_COUNT X = or_default (env X ''MINIMUM_VIEW_COUNT'') 1000000"

section \<open>setFlair\<close>

text \<open>The two selections of \<open>setFlair\<close>, each with its own copy of the tier test.\<close>

definition flairTemplateId :: "externals \<Rightarrow> number \<Rightarrow> number \<Rightarrow> string option" where
  "flairTemplateId X subCnt viewCnt =
     (if number_ge subCnt (unaryPlus (MINIMUM_SUB_COUNT X))
         \<or> number_ge viewCnt (unaryPlus (MINIMUM_VIEW_COUNT X))
      then FIRST_TIER_FLAIR_ID X else SECOND_TIER_FLAIR_ID X)"

definition flairEmojiId :: "externals \<Rightarrow> number \<Rightarrow> number \<Rightarrow> string option" where
  "flairEmojiId X subCnt viewCnt =
     (if number_ge subCnt (unaryPlus (MINIMUM_SUB_COUNT X))
         \<or> number_ge viewCnt (unaryPlus (MINIMUM_VIEW_COUNT X))
      then FIRST_TIER_EMOJI_ID X else SECOND_TIER_EMOJI_ID X)"

definition setFlair :: "externals \<Rightarrow> Verification \<Rightarrow> state \<Rightarrow> error + state" where
  "setFlair X verification st =
     (case youtube_statistics verification of
        None \<Rightarrow> Inr st
      | Some stats \<Rightarrow>
          (case subscriberCount stats of
             None \<Rightarrow> Inr st
           | Some sc \<Rightarrow>
               (case viewCount stats of
                  None \<Rightarrow> Inr st
                | Some vc \<Rightarrow>
                    if sc = [] \<or> vc = [] then Inr st
                    else
                      (let subCnt = unaryPlus_string sc;
                           viewCnt = unaryPlus_string vc;
                           request = \<lparr> flair_path = interp (SUBREDDIT X) @ ''/api/selectflair'',
                                       flair_name = author (reddit_comment verification),
                                       flair_text = '':'' @ interp (flairEmojiId X subCnt viewCnt)
                                          @ '': Subs: '' @ formatNumber X subCnt
                                          @ '' Views: '' @ formatNumber X viewCnt,
                                       flair_template_id = flairTemplateId X subCnt viewCnt \<rparr>
                       in case reddit_post X request of
                            Some e \<Rightarrow> Inl e
                          | None \<Rightarrow> Inr (st\<lparr>posted := posted st @ [request]\<rparr>)))))"

section \<open>The link pattern\<close>

text \<open>\<open>\s\<close> on code units below 256: tab, line feed, vertical tab, form feed, carriage
  return, space and no-break space.\<close>

definition isWhiteSpace :: "char \<Rightarrow> bool" where
  "isWhiteSpace c = ((of_char c :: nat) \<in> set [9, 10, 11, 12, 13, 32, 160])"

text \<open>The class \<open>[^\s\[\])(]\<close>.\<close>

definition isLinkChar :: "char \<Rightarrow> bool" where
  "isLinkChar c = (\<not> isWhiteSpace c \<and> c \<notin> set ''[])('')"

text \<open>
  \<open>/https:\/\/(www\.)?youtube\.com[^\s\[\])(]*/\<close> tried at the start of the text. The
  optional group is greedy; since \<open>www.\<close> and \<open>youtube.com\<close> start differently, at most
  one of the two readings matches. The class is repeated as long as possible.
\<close>

definition youtubeLinkReg_here :: "string \<Rightarrow> string option" where
  "youtubeLinkReg_here s =
     (if startsWith s ''https://'' then
        (let r = drop 8 s in
         if startsWith r ''www.'' \<and> startsWith (drop 4 r) ''youtube.com''
         then Some (''https://www.youtube.com'' @ takeWhile isLinkChar (drop 15 r))
         else if startsWith r ''youtube.com''
         then Some (''https://youtube.com'' @ takeWhile isLinkChar (drop 11 r))
         else None)
      else None)"

text \<open>\<open>body.match(youtubeLinkReg)?.[0]\<close>: the match at the leftmost position that has one.\<close>

fun youtubeLinkReg :: "string \<Rightarrow> string option" where
  "youtubeLinkReg [] = None"
| "youtubeLinkReg (c # cs) =
     (case youtubeLinkReg_here (c # cs) of
        Some m \<Rightarrow> Some m
      | None \<Rightarrow> youtubeLinkReg cs)"

text \<open>
  The pattern of the earlier revision of the file, \<open>/https:\/\/www.youtube.com[^\s\[\])(]*/\<close>:
  its two dots are unescaped and match any character but a line terminator.
\<close>

definition isDot :: "char \<Rightarrow> bool" where
  "isDot c = ((of_char c :: nat) \<notin> set [10, 13])"

definition youtubeLinkReg_here_part_000 :: "string \<Rightarrow> string option" where
  "youtubeLinkReg_here_part_000 s =
     (if 23 \<le> length s \<and> startsWith s ''https://www'' \<and> isDot (s ! 11)
         \<and> startsWith (drop 12 s) ''youtube'' \<and> isDot (s ! 19)
         \<and> startsWith (drop 20 s) ''com''
      then Some (take 23 s @ takeWhile isLinkChar (drop 23 s))
      else None)"

fun youtubeLinkReg_part_000 :: "string \<Rightarrow> string option" where
  "youtubeLinkReg_part_000 [] = None"
| "youtubeLinkReg_part_000 (c # cs) =
     (case youtubeLinkReg_here_part_000 (c # cs) of
        Some m \<Rightarrow> Some m
      | None \<Rightarrow> youtubeLinkReg_part_000 cs)"

section \<open>getRedditComments\<close>

text \<open>
  The \<open>youtubeLink\<close> of the \<open>map\<close> callback:
  \<open>!!body ? body.match(reg)?.[0] || "" : "https://www.youtube.com"\<close>.
\<close>

definition extractYoutubeLink :: "(string \<Rightarrow> string option) \<Rightarrow> string option \<Rightarrow> string" where
  "extractYoutubeLink reg b =
     (case b of
        None \<Rightarrow> ''https://www.youtube.com''
      | Some t \<Rightarrow>
          if t = [] then ''https://www.youtube.com''
          else (case reg t of None \<Rightarrow> [] | Some m \<Rightarrow> m))"

definition toComment :: "(string \<Rightarrow> string option) \<Rightarrow> RedditChild \<Rightarrow> Comment" where
  "toComment reg child =
     \<lparr> author = data_author child,
       body = data_body child,
       created = data_created child,
       created_utc = data_created_utc child,
       youtubeLink = extractYoutubeLink reg (data_body child) \<rparr>"

text \<open>\<open>moment.unix(seconds)\<close>: invalid when the argument is missing or \<open>NaN\<close>.\<close>

definition moment_unix :: "number option \<Rightarrow> moment" where
  "moment_unix n = (case n of Some (Num secs) \<Rightarrow> Some (secs * 1000) | _ \<Rightarrow> None)"

text \<open>\<open>isAfter\<close>, \<open>isBefore\<close> and \<open>isBetween\<close> with its default, exclusive bounds; each
  is false when a moment involved is invalid.\<close>

definition isAfter :: "moment \<Rightarrow> moment \<Rightarrow> bool" where
  "isAfter a b = (case a of None \<Rightarrow> False
                  | Some x \<Rightarrow> (case b of None \<Rightarrow> False | Some y \<Rightarrow> y < x))"

definition isBefore :: "moment \<Rightarrow> moment \<Rightarrow> bool" where
  "isBefore a b = (case a of None \<Rightarrow> False
                   | Some x \<Rightarrow> (case b of None \<Rightarrow> False | Some y \<Rightarrow> x < y))"

definition isBetween :: "moment \<Rightarrow> moment \<Rightarrow> moment \<Rightarrow> bool" where
  "isBetween m from to = (isAfter m from \<and> isBefore m to)"

text \<open>The second \<open>filter\<close> callback, given the clock reading of its \<open>moment.utc()\<close>.\<close>

definition keepItem :: "moment \<Rightarrow> int \<Rightarrow> Comment \<Rightarrow> bool" where
  "keepItem startDate nowMs item =
     (let commentCreated = moment_unix (created item);
          now = Some nowMs
      in youtubeLink item \<noteq> [] \<and> isBetween commentCreated startDate now)"

text \<open>The second \<open>filter\<close>: the callback reads the clock once for every item, so the
  item at position \<open>i\<close> is tested against reading \<open>k + i\<close>.\<close>

fun filterItems :: "externals \<Rightarrow> moment \<Rightarrow> nat \<Rightarrow> Comment list \<Rightarrow> Comment list" where
  "filterItems X startDate k [] = []"
| "filterItems X startDate k (item # rest) =
     (if keepItem startDate (clock X k) item
      then item # filterItems X startDate (Suc k) rest
      else filterItems X startDate (Suc k) rest)"

definition notDeleted :: "RedditChild \<Rightarrow> bool" where
  "notDeleted child = (data_author child \<noteq> Some ''[deleted]'')"

text \<open>The chain \<open>allComments.filter(..).map(..).filter(..)\<close>, shared by both revisions.\<close>

definition selectComments ::
  "(string \<Rightarrow> string option) \<Rightarrow> externals \<Rightarrow> moment \<Rightarrow> nat \<Rightarrow> RedditChild list \<Rightarrow> Comment list" where
  "selectComments reg X startDate k allComments =
     filterItems X startDate k (map (toComment reg) (filter notDeleted allComments))"

text \<open>\<open>getRedditComments\<close> of \<open>src/main.ts\<close>.\<close>

definition getRedditComments ::
  "externals \<Rightarrow> string \<Rightarrow> moment \<Rightarrow> state \<Rightarrow> error + (Comment list \<times> state)" where
  "getRedditComments X articleSource startDate st =
     (case reddit_get_article X articleSource of
        Inl e \<Rightarrow> Inl e
      | Inr redditArticle \<Rightarrow>
          (case redditArticle of
             _ # replies # _ \<Rightarrow>
               (case find (\<lambda>reply. kind reply = ''more'') replies of
                  None \<Rightarrow> Inr ([], st)
                | Some more' \<Rightarrow>
                    (case data_children more' of
                       None \<Rightarrow> Inl TypeError
                     | Some commentIds \<Rightarrow>
                         (case reddit_get_morechildren X (''t3_'' @ interp (ARTICLE X))
                                 (join '','' commentIds) of
                            Inl e \<Rightarrow> Inl e
                          | Inr things \<Rightarrow>
                              (let allComments = replies @ things
                               in Inr (selectComments youtubeLinkReg X startDate
                                         (clock_reads st) allComments,
                                       st\<lparr>clock_reads := clock_reads st
                                           + length (filter notDeleted allComments)\<rparr>)))))
           | _ \<Rightarrow> Inl TypeError))"

text \<open>\<open>getRedditComments\<close> of the earlier revision (\<open>src/unnamed/part_000\<close>).\<close>

definition getRedditComments_part_000 ::
  "externals \<Rightarrow> string \<Rightarrow> moment \<Rightarrow> state \<Rightarrow> error + (Comment list \<times> state)" where
  "getRedditComments_part_000 X articleSource startDate st =
     (case reddit_get_article X articleSource of
        Inl e \<Rightarrow> Inl e
      | Inr redditArticle \<Rightarrow>
          (case redditArticle of
             _ # replies # _ \<Rightarrow>
               (case (case find (\<lambda>reply. kind reply = ''more'') replies of
                        None \<Rightarrow> Inr replies
                      | Some more' \<Rightarrow>
                          (case data_children more' of
                             None \<Rightarrow> Inl TypeError
                           | Some commentIds \<Rightarrow>
                               (case reddit_get_morechildren X (''t3_'' @ interp (ARTICLE X))
                                       (join '','' commentIds) of
                                  Inl e \<Rightarrow> Inl e
                                | Inr things \<Rightarrow> Inr (replies @ things)))) of
                  Inl e \<Rightarrow> Inl e
                | Inr allComments \<Rightarrow>
                    Inr (selectComments youtubeLinkReg_part_000 X startDate (clock_reads st) allComments,
                         st\<lparr>clock_reads := clock_reads st
                             + length (filter notDeleted allComments)\<rparr>))
           | _ \<Rightarrow> Inl TypeError))"

section \<open>verifyChannel\<close>

text \<open>The lookup parameters chosen from the slug of the normalized link.\<close>

definition channelsListParams :: "string \<Rightarrow> ChannelsListParams" where
  "channelsListParams slug =
     (let youtubeChannelListParams =
            \<lparr> part = [''snippet,statistics''], forUsername = None, forHandle = None,
              id_param = None \<rparr>
      in if str_includes slug ''user/''
         then youtubeChannelListParams\<lparr>forUsername := split_1 ''user/'' slug\<rparr>
         else if str_includes slug ''channel/''
         then (case split_1 ''channel/'' slug of
                 None \<Rightarrow> youtubeChannelListParams
               | Some channelId \<Rightarrow>
                   if channelId = [] then youtubeChannelListParams
                   else youtubeChannelListParams\<lparr>id_param := Some [channelId]\<rparr>)
         else if startsWith slug ''@''
         then youtubeChannelListParams\<lparr>forHandle := Some (drop 1 slug)\<rparr>
         else youtubeChannelListParams\<lparr>forUsername := Some slug\<rparr>)"

text \<open>The link after the two \<open>replace\<close> calls, \<open>formatYoutubeLink\<close> and \<open>split("?")[0]\<close>.\<close>

definition formattedYoutubeLink :: "externals \<Rightarrow> string \<Rightarrow> string" where
  "formattedYoutubeLink X link =
     split_0 ''?''
       (formatYoutubeLink X
          (replace_first ''https://m.youtube.com'' ''https://www.youtube.com''
             (replace_first ''https://youtube.com'' ''https://www.youtube.com'' link)))"

text \<open>
  The result is the returned value (\<open>None\<close> for \<open>undefined\<close>) with the state after the
  call, or the exception thrown. Destructuring \<open>channel.items[0]\<close> of an empty array
  and calling \<open>toString\<close> on a missing \<open>created_utc\<close> throw a \<open>TypeError\<close>.
\<close>

definition verifyChannel ::
  "externals \<Rightarrow> Comment \<Rightarrow> bool \<Rightarrow> state \<Rightarrow> error + (Verification option \<times> state)" where
  "verifyChannel X comment skipDescriptionCheck st =
     (case RegExp_i X (''u/'' @ interp (author comment)) of
        Inl e \<Rightarrow> Inl e
      | Inr usernameReg \<Rightarrow>
          if youtubeLink comment = [] then Inr (None, st)
          else
            (case split_1 ''https://www.youtube.com/''
                    (formattedYoutubeLink X (youtubeLink comment)) of
               None \<Rightarrow> Inr (None, st)
             | Some slug \<Rightarrow>
                 if slug = [] then Inr (None, st)
                 else
                   (case youtube_channels_list X (channelsListParams slug) of
                      Inl e \<Rightarrow> Inl e
                    | Inr channel \<Rightarrow>
                        (case items channel of
                           None \<Rightarrow> Inr (None, st)
                         | Some [] \<Rightarrow> Inl TypeError
                         | Some (item # _) \<Rightarrow>
                             (case snippet item of
                                None \<Rightarrow> Inr (None, st)
                              | Some snip \<Rightarrow>
                                  (case description snip of
                                     None \<Rightarrow> Inr (None, st)
                                   | Some descr \<Rightarrow>
                                       (case statistics item of
                                          None \<Rightarrow> Inr (None, st)
                                        | Some stats \<Rightarrow>
                                            if descr = [] then Inr (None, st)
                                            else if usernameReg descr \<or> skipDescriptionCheck
                                            then
                                              (case created_utc comment of
                                                 None \<Rightarrow> Inl TypeError
                                               | Some ts \<Rightarrow>
                                                   Inr (Some \<lparr> reddit_comment = comment,
                                                               youtube_snippet = snip,
                                                               youtube_statistics = Some stats \<rparr>,
                                                        st\<lparr>approvedLinks := approvedLinks st @
                                                           [\<lparr> userId = author comment,
                                                              commentId = number_toString ts,
                                                              channelLink = formattedYoutubeLink X
                                                                 (youtubeLink comment) \<rparr>]\<rparr>))
                                            else Inr (None, st))))))))"

section \<open>The approved-link file and main\<close>

definition readApprovedLinksFromFile :: "state \<Rightarrow> error + PersistedState" where
  "readApprovedLinksFromFile st =
     (case approved_json st of
        None \<Rightarrow> Inr \<lparr> lastChecked = None, stored_approvedLinks = [] \<rparr>
      | Some Malformed \<Rightarrow> Inl SyntaxError
      | Some (Document d) \<Rightarrow> Inr d)"

definition writeApprovedLinksToFile :: "externals \<Rightarrow> state \<Rightarrow> state" where
  "writeApprovedLinksToFile X st =
     st\<lparr> approved_json :=
            Some (Document \<lparr> lastChecked = Some (toISOString X (clock X (clock_reads st))),
                             stored_approvedLinks = approvedLinks st \<rparr>),
         clock_reads := Suc (clock_reads st) \<rparr>"

fun updateFlairForApprovedLinks ::
  "externals \<Rightarrow> ApprovedLink list \<Rightarrow> state \<Rightarrow> error + state" where
  "updateFlairForApprovedLinks X [] st = Inr st"
| "updateFlairForApprovedLinks X (link # rest) st =
     (let comment = \<lparr> author = userId link,
                      body = Some [],
                      created = Some (Num 0),
                      created_utc = Some (parseInt (commentId link)),
                      youtubeLink = channelLink link \<rparr>
      in case verifyChannel X comment True st of
           Inl e \<Rightarrow> Inl e
         | Inr (None, st1) \<Rightarrow> updateFlairForApprovedLinks X rest st1
         | Inr (Some verification, st1) \<Rightarrow>
             (case setFlair X verification st1 of
                Inl e \<Rightarrow> Inl e
              | Inr st2 \<Rightarrow> updateFlairForApprovedLinks X rest st2))"

text \<open>The \<open>for\<close> loop of \<open>main\<close> over the new comments.\<close>

fun verifyComments :: "externals \<Rightarrow> Comment list \<Rightarrow> state \<Rightarrow> error + state" where
  "verifyComments X [] st = Inr st"
| "verifyComments X (comment # rest) st =
     (case verifyChannel X comment False st of
        Inl e \<Rightarrow> Inl e
      | Inr (None, st1) \<Rightarrow> verifyComments X rest st1
      | Inr (Some verification, st1) \<Rightarrow>
          (case setFlair X verification st1 of
             Inl e \<Rightarrow> Inl e
           | Inr st2 \<Rightarrow> verifyComments X rest st2))"

text \<open>
  \<open>main\<close>, up to its last statement; the call of \<open>writeApprovedLinksToFile\<close> before it is
  commented out in the source, so the model has none. The result is the state when
  \<open>main\<close> completes, or the exception that aborts the run.
\<close>

definition main :: "externals \<Rightarrow> state \<Rightarrow> error + state" where
  "main X st =
     (case readApprovedLinksFromFile st of
        Inl e \<Rightarrow> Inl e
      | Inr file \<Rightarrow>
          (let existingApprovedLinks = stored_approvedLinks file;
               st1 = st\<lparr>approvedLinks := approvedLinks st @ existingApprovedLinks\<rparr>
           in case updateFlairForApprovedLinks X existingApprovedLinks st1 of
                Inl e \<Rightarrow> Inl e
              | Inr st2 \<Rightarrow>
                  (let (startDate, st3) =
                         (case lastChecked file of
                            None \<Rightarrow>
                              (moment_subtract_days X (clock X (clock_reads st2)) (PREVIOUS_DAYS X),
                               st2\<lparr>clock_reads := Suc (clock_reads st2)\<rparr>)
                          | Some lc \<Rightarrow>
                              if lc = []
                              then (moment_subtract_days X (clock X (clock_reads st2))
                                      (PREVIOUS_DAYS X),
                                    st2\<lparr>clock_reads := Suc (clock_reads st2)\<rparr>)
                              else (moment_utc_parse X lc, st2))
                   in case getRedditComments X
                             (interp (SUBREDDIT X) @ ''/comments/'' @ interp (ARTICLE X))
                             startDate st3 of
                        Inl e \<Rightarrow> Inl e
                      | Inr (comments, st4) \<Rightarrow> verifyComments X comments st4)))"

section \<open>A concrete thread and channel\<close>

text \<open>
  Inputs on which the functions above are evaluated below. For the two helpers of
  \<open>./util\<close>, which the program imports, \<open>formatYoutubeLink\<close> returns its argument
  here and \<open>formatNumber\<close> prints the number without separators. The regular
  expression built from a user name of letters, digits, \<open>_\<close> and \<open>-\<close> has no
  metacharacter: with the flag \<open>i\<close> it tests whether the text contains the pattern,
  ignoring the case of letters. The clock starts at 2023-11-14T22:21:40Z and advances
  by a millisecond with every reading.
\<close>

definition upcase :: "char \<Rightarrow> char" where
  "upcase c =
     (case map_of (zip ''abcdefghijklmnopqrstuvwxyz'' ''ABCDEFGHIJKLMNOPQRSTUVWXYZ'') c of
        None \<Rightarrow> c
      | Some u \<Rightarrow> u)"

definition literalRegExp_i :: "string \<Rightarrow> error + (string \<Rightarrow> bool)" where
  "literalRegExp_i pat = Inr (\<lambda>text. str_includes (map upcase text) (map upcase pat))"

definition example_env :: "string \<Rightarrow> string option" where
  "example_env =
     map_of [(''SUBREDDIT'', ''/r/partnered''),
             (''SUBREDDIT_ARTICLE'', ''abc123''),
             (''PREVIOUS_DAYS'', ''7''),
             (''FIRST_TIER_FLAIR_TEMPLATE_ID'', ''tpl-gold''),
             (''FIRST_TIER_FLAIR_EMOJI_ID'', ''gold''),
             (''SECOND_TIER_FLAIR_TEMPLATE_ID'', ''tpl-silver''),
             (''SECOND_TIER_FLAIR_EMOJI_ID'', ''silver'')]"

definition example_externals ::
  "RedditChild list \<Rightarrow> RedditChild list \<Rightarrow> ChannelListResponse \<Rightarrow> externals" where
  "example_externals replies things response =
     \<lparr> env = example_env,
       formatNumber = number_toString,
       formatYoutubeLink = (\<lambda>link. link),
       reddit_get_article = (\<lambda>path. Inr [[], replies]),
       reddit_get_morechildren = (\<lambda>link_id children. Inr things),
       reddit_post = (\<lambda>request. None),
       youtube_channels_list = (\<lambda>params. Inr response),
       RegExp_i = literalRegExp_i,
       clock = (\<lambda>k. 1700000500000 + int k),
       moment_utc_parse = (\<lambda>text. Some 1698796800000),
       moment_subtract_days = (\<lambda>now days. Some (now - 604800000)),
       toISOString = (\<lambda>ms. ''2023-11-14T22:21:40.000Z'') \<rparr>"

definition example_reply :: "string \<Rightarrow> string option \<Rightarrow> int \<Rightarrow> int \<Rightarrow> RedditChild" where
  "example_reply who text secs secs_utc =
     \<lparr> kind = ''t1'', data_author = Some who, data_body = text,
       data_created = Some (Num secs), data_created_utc = Some (Num secs_utc),
       data_children = None \<rparr>"

definition example_more :: RedditChild where
  "example_more =
     \<lparr> kind = ''more'', data_author = None, data_body = None, data_created = None,
       data_created_utc = None, data_children = Some [''k1'', ''k2''] \<rparr>"

definition example_channel :: "string \<Rightarrow> string \<Rightarrow> string \<Rightarrow> Channel" where
  "example_channel descr subs views =
     \<lparr> snippet = Some \<lparr> description = Some descr \<rparr>,
       statistics = Some \<lparr> subscriberCount = Some subs, viewCount = Some views \<rparr> \<rparr>"

definition example_state :: state where
  "example_state = \<lparr> approvedLinks = [], approved_json = None, posted = [], clock_reads = 0 \<rparr>"

definition example_comment :: Comment where
  "example_comment =
     \<lparr> author = Some ''alice'',
       body = Some ''check out https://www.youtube.com/channel/UC123 nice'',
       created = Some (Num 1700000000),
       created_utc = Some (Num 1700000000),
       youtubeLink = ''https://www.youtube.com/channel/UC123'' \<rparr>"

definition example_verification :: "string \<Rightarrow> string \<Rightarrow> Verification" where
  "example_verification subs views =
     \<lparr> reddit_comment = example_comment,
       youtube_snippet = \<lparr> description = Some ''I'm u/alice, welcome!'' \<rparr>,
       youtube_statistics = Some \<lparr> subscriberCount = Some subs, viewCount = Some views \<rparr> \<rparr>"

definition example_alice :: RedditChild where
  "example_alice =
     example_reply ''alice'' (Some ''check out https://www.youtube.com/channel/UC123 nice'')
       1700000000 1700000000"

definition example_bob :: RedditChild where
  "example_bob =
     example_reply ''bob'' (Some ''mine: https://youtube.com/@bob (new)'') 1700000100 1700000100"

definition example_carol :: RedditChild where
  "example_carol = example_reply ''carol'' (Some []) 1700000200 1700000200"

definition example_erin :: RedditChild where
  "example_erin = example_reply ''erin'' None 1700000300 1700000300"

definition example_dave :: RedditChild where
  "example_dave =
     example_reply ''dave'' (Some ''https://youtube.com/@dave'') 1700000000 1600000000"

definition example_startDate :: moment where
  "example_startDate = Some 1699000000000"

definition example_approved :: ApprovedLink where
  "example_approved =
     \<lparr> userId = Some ''alice'', commentId = ''1700000000'',
       channelLink = ''https://www.youtube.com/channel/UC123'' \<rparr>"

definition example_stored_state :: state where
  "example_stored_state =
     \<lparr> approvedLinks = [],
       approved_json = Some (Document \<lparr> lastChecked = Some ''2023-11-01T00:00:00.000Z'',
                                        stored_approvedLinks = [example_approved] \<rparr>),
       posted = [], clock_reads = 0 \<rparr>"

definition example_badge :: SelectFlair where
  "example_badge =
     \<lparr> flair_path = ''/r/partnered/api/selectflair'', flair_name = Some ''alice'',
       flair_text = '':silver: Subs: 50000 Views: 200000'',
       flair_template_id = Some ''tpl-silver'' \<rparr>"

definition example_response :: ChannelListResponse where
  "example_response =
     \<lparr> items = Some [example_channel ''I'm u/alice, welcome!'' ''50000'' ''200000''] \<rparr>"

section \<open>Properties of setFlair\<close>

lemma or_default_None: "or_default None d = Number (Num d)"
  by (simp add: or_default_def)

lemma number_ge_mono: "number_ge (Num a) t \<Longrightarrow> a \<le> b \<Longrightarrow> number_ge (Num b) t"
  by (cases t) auto

lemma example_env_values:
  "example_env ''SUBREDDIT'' = Some ''/r/partnered''"
  "example_env ''SUBREDDIT_ARTICLE'' = Some ''abc123''"
  "example_env ''FIRST_TIER_FLAIR_TEMPLATE_ID'' = Some ''tpl-gold''"
  "example_env ''FIRST_TIER_FLAIR_EMOJI_ID'' = Some ''gold''"
  "example_env ''SECOND_TIER_FLAIR_TEMPLATE_ID'' = Some ''tpl-silver''"
  "example_env ''SECOND_TIER_FLAIR_EMOJI_ID'' = Some ''silver''"
  "example_env ''MINIMUM_SUB_COUNT'' = None"
  "example_env ''MINIMUM_VIEW_COUNT'' = None"
  by (simp_all add: example_env_def)

lemmas config_defs =
  SUBREDDIT_def ARTICLE_def FIRST_TIER_FLAIR_ID_def FIRST_TIER_EMOJI_ID_def
  SECOND_TIER_FLAIR_ID_def SECOND_TIER_EMOJI_ID_def MINIMUM_SUB_COUNT_def
  MINIMUM_VIEW_COUNT_def


lemma example_numbers:
  "unaryPlus_string ''50000'' = Num 50000"
  "unaryPlus_string ''150000'' = Num 150000"
  "unaryPlus_string ''200000'' = Num 200000"
  by (simp_all add: unaryPlus_string_def isDigit_def)

lemma example_externals_fields:
  "env (example_externals replies things response) = example_env"
  "formatNumber (example_externals replies things response) = number_toString"
  "formatYoutubeLink (example_externals replies things response) = (\<lambda>link. link)"
  "reddit_get_article (example_externals replies things response) = (\<lambda>path. Inr [[], replies])"
  "reddit_get_morechildren (example_externals replies things response)
     = (\<lambda>link_id children. Inr things)"
  "reddit_post (example_externals replies things response) = (\<lambda>r. None)"
  "youtube_channels_list (example_externals replies things response) = (\<lambda>params. Inr response)"
  "RegExp_i (example_externals replies things response) = literalRegExp_i"
  "clock (example_externals replies things response) = (\<lambda>k. 1700000500000 + int k)"
  "moment_utc_parse (example_externals replies things response)
     = (\<lambda>text. Some 1698796800000)"
  "moment_subtract_days (example_externals replies things response)
     = (\<lambda>now days. Some (now - 604800000))"
  "toISOString (example_externals replies things response)
     = (\<lambda>ms. ''2023-11-14T22:21:40.000Z'')"
  by (simp_all add: example_externals_def)


text \<open>
  C8. The tier test is monotonic in both counts: when a pair of counts passes it, so
  does every pair with counts at least as large, and both selections of \<open>setFlair\<close>
  that gave the first-tier identifier still give it.
\<close>

theorem tier_monotonic:
  assumes "s \<le> s'" and "v \<le> v'"
  shows "(number_ge (Num s) (unaryPlus (MINIMUM_SUB_COUNT X))
            \<or> number_ge (Num v) (unaryPlus (MINIMUM_VIEW_COUNT X))
          \<longrightarrow> number_ge (Num s') (unaryPlus (MINIMUM_SUB_COUNT X))
            \<or> number_ge (Num v') (unaryPlus (MINIMUM_VIEW_COUNT X)))
       \<and> (flairTemplateId X (Num s) (Num v) = FIRST_TIER_FLAIR_ID X
          \<longrightarrow> flairTemplateId X (Num s') (Num v') = FIRST_TIER_FLAIR_ID X)
       \<and> (flairEmojiId X (Num s) (Num v) = FIRST_TIER_EMOJI_ID X
          \<longrightarrow> flairEmojiId X (Num s') (Num v') = FIRST_TIER_EMOJI_ID X)"
proof -
  have mono: "number_ge (Num s) (unaryPlus (MINIMUM_SUB_COUNT X))
            \<or> number_ge (Num v) (unaryPlus (MINIMUM_VIEW_COUNT X))
          \<Longrightarrow> number_ge (Num s') (unaryPlus (MINIMUM_SUB_COUNT X))
            \<or> number_ge (Num v') (unaryPlus (MINIMUM_VIEW_COUNT X))"
    using assms number_ge_mono by blast
  show ?thesis
    using mono by (auto simp: flairTemplateId_def flairEmojiId_def split: if_splits)
qed

theorem tier_monotonic_witness:
  "flairTemplateId (example_externals [] [] \<lparr> items = None \<rparr>) (Num 100000) (Num 0)
      = Some ''tpl-gold''
   \<and> flairTemplateId (example_externals [] [] \<lparr> items = None \<rparr>) (Num 250000) (Num 7)
      = Some ''tpl-gold''
   \<and> flairTemplateId (example_externals [] [] \<lparr> items = None \<rparr>) (Num 99999) (Num 999999)
      = Some ''tpl-silver''"
proof -
  let ?X = "example_externals [] [] \<lparr> items = None \<rparr>"
  have first: "FIRST_TIER_FLAIR_ID ?X = Some ''tpl-gold''"
    by (simp add: config_defs example_externals_fields example_env_values)
  have low: "flairTemplateId ?X (Num 100000) (Num 0) = Some ''tpl-gold''"
    and second: "flairTemplateId ?X (Num 99999) (Num 999999) = Some ''tpl-silver''"
    by (simp_all add: flairTemplateId_def config_defs example_externals_fields
          example_env_values or_default_None)
  have "flairTemplateId ?X (Num 250000) (Num 7) = Some ''tpl-gold''"
    using tier_monotonic [of 100000 250000 0 7 ?X] low first by simp
  with low second show ?thesis by simp
qed

text \<open>
  C10. A badge write of \<open>setFlair\<close> is consistent in its tier: a call that returns
  leaves the list of writes as it was or adds one request, and that request carries
  either the first-tier template with the first-tier emoji at the head of its text, or
  the second-tier template with the second-tier emoji.
\<close>

theorem setFlair_tier_consistent:
  assumes "setFlair X ver st = Inr st'"
  shows "posted st' = posted st
       \<or> (\<exists>r rest. posted st' = posted st @ [r]
             \<and> flair_template_id r = FIRST_TIER_FLAIR_ID X
             \<and> flair_text r = '':'' @ interp (FIRST_TIER_EMOJI_ID X) @ '': Subs: '' @ rest)
       \<or> (\<exists>r rest. posted st' = posted st @ [r]
             \<and> flair_template_id r = SECOND_TIER_FLAIR_ID X
             \<and> flair_text r = '':'' @ interp (SECOND_TIER_EMOJI_ID X) @ '': Subs: '' @ rest)"
  using assms
  by (auto simp: setFlair_def Let_def flairTemplateId_def flairEmojiId_def
           split: option.splits if_splits)

theorem setFlair_tier_consistent_witness:
  "(\<exists>st'. setFlair (example_externals [] [] \<lparr> items = None \<rparr>)
            (example_verification ''150000'' ''200000'') example_state = Inr st'
      \<and> (posted st' = posted example_state
         \<or> (\<exists>r rest. posted st' = posted example_state @ [r]
               \<and> flair_template_id r = Some ''tpl-gold''
               \<and> flair_text r = '':gold: Subs: '' @ rest)
         \<or> (\<exists>r rest. posted st' = posted example_state @ [r]
               \<and> flair_template_id r = Some ''tpl-silver''
               \<and> flair_text r = '':silver: Subs: '' @ rest)))"
proof -
  let ?X = "example_externals [] [] \<lparr> items = None \<rparr>"
  obtain st' where run: "setFlair ?X (example_verification ''150000'' ''200000'') example_state
      = Inr st'"
    by (simp add: setFlair_def Let_def example_verification_def example_externals_fields)
  have ids: "FIRST_TIER_FLAIR_ID ?X = Some ''tpl-gold''"
      "SECOND_TIER_FLAIR_ID ?X = Some ''tpl-silver''"
      "interp (FIRST_TIER_EMOJI_ID ?X) = ''gold''"
      "interp (SECOND_TIER_EMOJI_ID ?X) = ''silver''"
    by (simp_all add: config_defs example_externals_fields example_env_values interp_def)
  show ?thesis
    using run setFlair_tier_consistent [OF run] unfolding ids by auto
qed

section \<open>Properties of verifyChannel\<close>

text \<open>
  C9. A call of \<open>verifyChannel\<close> that returns either returns nothing and leaves the
  state, and with it the list of approved links, as it was, or returns a verification of
  the comment and has appended exactly one approved link to the list: the author of the
  comment, its \<open>created_utc\<close> printed as a string, and the normalized link.
\<close>

theorem verifyChannel_appends_iff_verified:
  assumes "verifyChannel X c skip st = Inr (r, st')"
  shows "(r = None \<and> st' = st)
       \<or> (\<exists>v ts. r = Some v \<and> reddit_comment v = c \<and> created_utc c = Some ts
             \<and> st' = st\<lparr>approvedLinks := approvedLinks st @
                   [\<lparr> userId = author c, commentId = number_toString ts,
                      channelLink = formattedYoutubeLink X (youtubeLink c) \<rparr>]\<rparr>)"
  using assms
  by (auto simp: verifyChannel_def split: sum.splits option.splits list.splits if_splits)

lemma example_link:
  "split_1 ''https://www.youtube.com/'' ''https://www.youtube.com/channel/UC123''
     = Some ''channel/UC123''"
  "formattedYoutubeLink (example_externals replies things response)
        ''https://www.youtube.com/channel/UC123'' = ''https://www.youtube.com/channel/UC123''"
  by (simp_all add: formattedYoutubeLink_def example_externals_fields split_1_def split_0_def
        replace_first_def startsWith_def)

lemma example_proof_check:
  "literalRegExp_i ''u/alice'' = Inr (\<lambda>text. str_includes (map upcase text) ''U/ALICE'')"
  by (simp add: literalRegExp_i_def upcase_def)

lemma example_verify_ok:
  "verifyChannel
     (example_externals replies things
        \<lparr> items = Some [example_channel ''I'm u/alice, welcome!'' ''50000'' ''200000''] \<rparr>)
     example_comment False st
   = Inr (Some \<lparr> reddit_comment = example_comment,
                 youtube_snippet = \<lparr> description = Some ''I'm u/alice, welcome!'' \<rparr>,
                 youtube_statistics =
                   Some \<lparr> subscriberCount = Some ''50000'', viewCount = Some ''200000'' \<rparr> \<rparr>,
          st\<lparr>approvedLinks := approvedLinks st @
            [\<lparr> userId = Some ''alice'', commentId = ''1700000000'',
               channelLink = ''https://www.youtube.com/channel/UC123'' \<rparr>]\<rparr>)"
  by (simp add: verifyChannel_def example_comment_def example_externals_fields interp_def
        example_proof_check example_link example_channel_def upcase_def str_includes_def
        startsWith_def channelsListParams_def)

lemma example_verify_fail:
  "verifyChannel
     (example_externals replies things
        \<lparr> items = Some [example_channel ''Welcome to my channel'' ''50000'' ''200000''] \<rparr>)
     example_comment False st
   = Inr (None, st)"
  by (simp add: verifyChannel_def example_comment_def example_externals_fields interp_def
        example_proof_check example_link example_channel_def upcase_def str_includes_def
        startsWith_def channelsListParams_def)

theorem verifyChannel_appends_iff_verified_witness:
  "(\<exists>v ts. created_utc example_comment = Some ts \<and> reddit_comment v = example_comment
       \<and> verifyChannel
           (example_externals [] []
              \<lparr> items = Some [example_channel ''I'm u/alice, welcome!'' ''50000'' ''200000''] \<rparr>)
           example_comment False example_state
         = Inr (Some v, example_state\<lparr>approvedLinks :=
              [\<lparr> userId = Some ''alice'', commentId = number_toString ts,
                 channelLink = ''https://www.youtube.com/channel/UC123'' \<rparr>]\<rparr>))
   \<and> verifyChannel
        (example_externals [] []
           \<lparr> items = Some [example_channel ''Welcome to my channel'' ''50000'' ''200000''] \<rparr>)
        example_comment False example_state
      = Inr (None, example_state)"
proof -
  note run_ok = example_verify_ok [of "[]" "[]" example_state]
  note run_fail = example_verify_fail [of "[]" "[]" example_state]
  note ok = verifyChannel_appends_iff_verified [OF run_ok]
  note fail = verifyChannel_appends_iff_verified [OF run_fail]
  have l: "approvedLinks example_state = []"
    by (simp add: example_state_def)
  have y: "youtubeLink example_comment = ''https://www.youtube.com/channel/UC123''"
      "author example_comment = Some ''alice''"
    by (simp_all add: example_comment_def)
  show ?thesis
    using ok fail run_ok run_fail
    by (simp add: l y example_link)
qed

text \<open>
  C3. For a comment whose link resolves to a slug, the outcome of \<open>verifyChannel\<close>
  by the \<open>items\<close> of the lookup response: when the field is missing the call returns
  nothing and leaves the state; when it is the empty list the call throws a
  \<open>TypeError\<close>; when it has several items, the call behaves as if the response held the
  first item alone.
\<close>

theorem verifyChannel_lookup_items:
  assumes re: "RegExp_i X (''u/'' @ interp (author c)) = Inr re"
    and link: "youtubeLink c \<noteq> []"
    and slug: "split_1 ''https://www.youtube.com/'' (formattedYoutubeLink X (youtubeLink c))
                 = Some slug" "slug \<noteq> []"
    and resp: "youtube_channels_list X (channelsListParams slug) = Inr response"
  shows "(items response = None \<longrightarrow> verifyChannel X c skip st = Inr (None, st))
       \<and> (items response = Some [] \<longrightarrow> verifyChannel X c skip st = Inl TypeError)
       \<and> (\<forall>item others. items response = Some (item # others) \<longrightarrow>
             verifyChannel X c skip st
               = verifyChannel
                   (X\<lparr>youtube_channels_list := \<lambda>params. Inr \<lparr> items = Some [item] \<rparr>\<rparr>)
                   c skip st)"
proof -
  have f: "formattedYoutubeLink (X\<lparr>youtube_channels_list := g\<rparr>) = formattedYoutubeLink X" for g
    by (rule ext) (simp add: formattedYoutubeLink_def)
  show ?thesis
    using assms by (simp add: verifyChannel_def f split: option.splits)
qed

theorem verifyChannel_lookup_items_witness:
  "verifyChannel (example_externals [] [] \<lparr> items = Some [] \<rparr>)
      example_comment False example_state = Inl TypeError
   \<and> verifyChannel (example_externals [] [] \<lparr> items = None \<rparr>)
      example_comment False example_state = Inr (None, example_state)"
proof -
  have re: "RegExp_i (example_externals [] [] response) (''u/'' @ interp (author example_comment))
      = Inr (\<lambda>text. str_includes (map upcase text) ''U/ALICE'')" for response
    by (simp add: example_externals_fields example_comment_def interp_def example_proof_check)
  have link: "youtubeLink example_comment \<noteq> []"
    by (simp add: example_comment_def)
  have slug: "split_1 ''https://www.youtube.com/''
      (formattedYoutubeLink (example_externals [] [] response) (youtubeLink example_comment))
      = Some ''channel/UC123''" for response
    by (simp add: example_comment_def example_link)
  have resp: "youtube_channels_list (example_externals [] [] response)
      (channelsListParams ''channel/UC123'') = Inr response" for response
    by (simp add: example_externals_fields)
  show ?thesis
    using verifyChannel_lookup_items [OF re link slug _ resp, of "\<lparr> items = Some [] \<rparr>"]
      verifyChannel_lookup_items [OF re link slug _ resp, of "\<lparr> items = None \<rparr>"]
    by simp
qed

section \<open>Properties of getRedditComments\<close>

lemma filterItems_append:
  "filterItems X sd k (xs @ ys) = filterItems X sd k xs @ filterItems X sd (k + length xs) ys"
  by (induction xs arbitrary: k) simp_all

lemma selectComments_append:
  "selectComments reg X sd k (xs @ ys)
     = selectComments reg X sd k xs
       @ selectComments reg X sd (k + length (filter notDeleted xs)) ys"
  by (simp add: selectComments_def filterItems_append)

lemma filterItems_enumerate:
  "filterItems X sd k cs
     = map snd (filter (\<lambda>(i, item). keepItem sd (clock X i) item) (enumerate k cs))"
  by (induction cs arbitrary: k) simp_all

lemma filterItems_member:
  "item \<in> set cs \<Longrightarrow> (\<forall>j. keepItem sd (clock X j) item)
     \<Longrightarrow> item \<in> set (filterItems X sd k cs)"
  by (induction cs arbitrary: k) auto

lemma keepItem_iff:
  "keepItem (Some startMs) nowMs item
     \<longleftrightarrow> youtubeLink item \<noteq> []
         \<and> (\<exists>secs. created item = Some (Num secs)
               \<and> startMs < secs * 1000 \<and> secs * 1000 < nowMs)"
  by (auto simp: keepItem_def Let_def isBetween_def isAfter_def isBefore_def moment_unix_def
           split: option.splits number.splits)

lemma getRedditComments_with_more:
  assumes "reddit_get_article X a = Inr (post # replies # rest)"
    and "find (\<lambda>reply. kind reply = ''more'') replies = Some m"
    and "data_children m = Some ids"
    and "reddit_get_morechildren X (''t3_'' @ interp (ARTICLE X)) (join '','' ids) = Inr things"
  shows "getRedditComments X a sd st
           = Inr (selectComments youtubeLinkReg X sd (clock_reads st) (replies @ things),
                  st\<lparr>clock_reads := clock_reads st
                      + length (filter notDeleted (replies @ things))\<rparr>)"
  using assms by (simp add: getRedditComments_def Let_def)

text \<open>
  C1. Given the thread, \<open>getRedditComments\<close> by the overflow marker. When the root
  replies hold no \<open>more\<close> entry, the function of \<open>src/main.ts\<close> returns the empty
  list, whatever the root replies are, where the earlier revision returns the selection
  of the root replies. When the marker is there and the overflow fetch returns, the
  result is the selection of the root replies followed by the selection of the
  overflow replies, each in source order.
\<close>

theorem getRedditComments_overflow_marker:
  assumes "reddit_get_article X a = Inr (post # replies # rest)"
  shows "(find (\<lambda>reply. kind reply = ''more'') replies = None \<longrightarrow>
            getRedditComments X a sd st = Inr ([], st)
          \<and> getRedditComments_part_000 X a sd st
              = Inr (selectComments youtubeLinkReg_part_000 X sd (clock_reads st) replies,
                     st\<lparr>clock_reads := clock_reads st + length (filter notDeleted replies)\<rparr>))
       \<and> (\<forall>m ids things.
            find (\<lambda>reply. kind reply = ''more'') replies = Some m
            \<and> data_children m = Some ids
            \<and> reddit_get_morechildren X (''t3_'' @ interp (ARTICLE X)) (join '','' ids)
                = Inr things \<longrightarrow>
            getRedditComments X a sd st
              = Inr (selectComments youtubeLinkReg X sd (clock_reads st) replies
                     @ selectComments youtubeLinkReg X sd
                         (clock_reads st + length (filter notDeleted replies)) things,
                     st\<lparr>clock_reads := clock_reads st
                         + length (filter notDeleted (replies @ things))\<rparr>))"
  using assms
  by (simp add: getRedditComments_def getRedditComments_part_000_def selectComments_append Let_def)

lemmas link_pattern_defs =
  youtubeLinkReg_here_def youtubeLinkReg_here_part_000_def startsWith_def isLinkChar_def
  isWhiteSpace_def isDot_def

lemmas filter_defs =
  selectComments_def keepItem_def isBetween_def isAfter_def isBefore_def
  moment_unix_def Let_def

lemma example_toComment:
  "toComment youtubeLinkReg example_alice = example_comment"
  "toComment youtubeLinkReg_part_000 example_alice = example_comment"
  "toComment youtubeLinkReg example_bob
     = \<lparr> author = Some ''bob'', body = Some ''mine: https://youtube.com/@bob (new)'',
         created = Some (Num 1700000100), created_utc = Some (Num 1700000100),
         youtubeLink = ''https://youtube.com/@bob'' \<rparr>"
  "toComment youtubeLinkReg example_carol
     = \<lparr> author = Some ''carol'', body = Some [],
         created = Some (Num 1700000200), created_utc = Some (Num 1700000200),
         youtubeLink = ''https://www.youtube.com'' \<rparr>"
  "toComment youtubeLinkReg example_erin
     = \<lparr> author = Some ''erin'', body = None,
         created = Some (Num 1700000300), created_utc = Some (Num 1700000300),
         youtubeLink = ''https://www.youtube.com'' \<rparr>"
  "toComment youtubeLinkReg example_dave
     = \<lparr> author = Some ''dave'', body = Some ''https://youtube.com/@dave'',
         created = Some (Num 1700000000), created_utc = Some (Num 1600000000),
         youtubeLink = ''https://youtube.com/@dave'' \<rparr>"
  "toComment reg example_more
     = \<lparr> author = None, body = None, created = None, created_utc = None,
         youtubeLink = ''https://www.youtube.com'' \<rparr>"
  by (simp_all add: toComment_def extractYoutubeLink_def example_alice_def example_bob_def
        example_carol_def example_erin_def example_dave_def example_more_def
        example_reply_def example_comment_def link_pattern_defs)

lemma example_notDeleted:
  "notDeleted example_alice" "notDeleted example_bob" "notDeleted example_carol"
  "notDeleted example_erin" "notDeleted example_dave" "notDeleted example_more"
  by (simp_all add: notDeleted_def example_alice_def example_bob_def example_carol_def
        example_erin_def example_dave_def example_more_def example_reply_def)

lemma example_find_more:
  "find (\<lambda>reply. kind reply = ''more'') [example_alice] = None"
  "find (\<lambda>reply. kind reply = ''more'') [example_alice, example_more] = Some example_more"
  "find (\<lambda>reply. kind reply = ''more'') [example_carol, example_more] = Some example_more"
  "find (\<lambda>reply. kind reply = ''more'') [example_dave, example_more] = Some example_more"
  "data_children example_more = Some [''k1'', ''k2'']"
  by (simp_all add: example_alice_def example_carol_def example_dave_def example_more_def
        example_reply_def)

theorem getRedditComments_overflow_marker_witness:
  "getRedditComments (example_externals [example_alice] [] \<lparr> items = None \<rparr>)
      ''/r/partnered/comments/abc123'' example_startDate example_state
     = Inr ([], example_state)
   \<and> getRedditComments_part_000 (example_externals [example_alice] [] \<lparr> items = None \<rparr>)
      ''/r/partnered/comments/abc123'' example_startDate example_state
     = Inr ([example_comment], example_state\<lparr>clock_reads := 1\<rparr>)
   \<and> getRedditComments
      (example_externals [example_alice, example_more] [example_bob] \<lparr> items = None \<rparr>)
      ''/r/partnered/comments/abc123'' example_startDate example_state
     = Inr ([example_comment, toComment youtubeLinkReg example_bob],
            example_state\<lparr>clock_reads := 3\<rparr>)"
proof -
  let ?X1 = "example_externals [example_alice] [] \<lparr> items = None \<rparr>"
  let ?X2 = "example_externals [example_alice, example_more] [example_bob] \<lparr> items = None \<rparr>"
  have a1: "reddit_get_article ?X1 ''/r/partnered/comments/abc123''
      = Inr ([] # [example_alice] # [])"
    and a2: "reddit_get_article ?X2 ''/r/partnered/comments/abc123''
      = Inr ([] # [example_alice, example_more] # [])"
    by (simp_all add: example_externals_fields)
  have k: "clock_reads example_state = 0"
    by (simp add: example_state_def)
  have m: "reddit_get_morechildren ?X2 (''t3_'' @ interp (ARTICLE ?X2)) (join '','' [''k1'', ''k2''])
      = Inr [example_bob]"
    by (simp add: example_externals_fields)
  have s1: "selectComments youtubeLinkReg_part_000 ?X1 example_startDate k [example_alice]
      = [example_comment]" for k
    by (simp add: filter_defs example_notDeleted example_toComment example_externals_fields
          example_startDate_def example_comment_def)
  have s2: "selectComments youtubeLinkReg ?X2 example_startDate k [example_alice, example_more]
      = [example_comment]" for k
    by (simp add: filter_defs example_notDeleted example_toComment example_externals_fields
          example_startDate_def example_comment_def)
  have s3: "selectComments youtubeLinkReg ?X2 example_startDate k [example_bob]
      = [toComment youtubeLinkReg example_bob]" for k
    by (simp add: filter_defs example_notDeleted example_toComment example_externals_fields
          example_startDate_def)
  note r1 = getRedditComments_overflow_marker
    [OF a1, of example_startDate example_state, THEN conjunct1, THEN mp,
     OF example_find_more(1)]
  note r2 = getRedditComments_overflow_marker
    [OF a2, of example_startDate example_state, THEN conjunct2, THEN spec, THEN spec,
     THEN spec, THEN mp, OF conjI [OF example_find_more(2) conjI [OF example_find_more(5) m]]]
  show ?thesis
    using r1 r2 by (simp add: k s1 s2 s3 example_notDeleted)
qed

text \<open>
  C6. For a thread with an overflow marker, \<open>getRedditComments\<close> returns, in order,
  the non-deleted entries with a non-empty link whose \<open>created\<close> field, in
  milliseconds, lies strictly between \<open>startDate\<close> and the clock reading taken for
  that entry. The field \<open>created_utc\<close> plays no part.
\<close>

theorem getRedditComments_window_on_created:
  assumes "reddit_get_article X a = Inr (post # replies # rest)"
    and "find (\<lambda>reply. kind reply = ''more'') replies = Some m"
    and "data_children m = Some ids"
    and "reddit_get_morechildren X (''t3_'' @ interp (ARTICLE X)) (join '','' ids) = Inr things"
  shows "\<exists>st'. getRedditComments X a (Some startMs) st
           = Inr (map snd
                   (filter (\<lambda>(i, item). youtubeLink item \<noteq> []
                              \<and> (\<exists>secs. created item = Some (Num secs)
                                    \<and> startMs < secs * 1000 \<and> secs * 1000 < clock X i))
                      (enumerate (clock_reads st)
                         (map (toComment youtubeLinkReg)
                            (filter notDeleted (replies @ things))))),
                  st')"
  using assms
  by (simp add: getRedditComments_def selectComments_def filterItems_enumerate keepItem_iff
        Let_def)

theorem getRedditComments_window_on_created_witness:
  "\<exists>st'. getRedditComments
      (example_externals [example_alice, example_more] [example_bob] \<lparr> items = None \<rparr>)
      ''/r/partnered/comments/abc123'' (Some 1699000000000) example_state
     = Inr ([example_comment, toComment youtubeLinkReg example_bob], st')"
proof -
  let ?X = "example_externals [example_alice, example_more] [example_bob] \<lparr> items = None \<rparr>"
  have a: "reddit_get_article ?X ''/r/partnered/comments/abc123''
      = Inr ([] # [example_alice, example_more] # [])"
    by (simp add: example_externals_fields)
  have m: "reddit_get_morechildren ?X (''t3_'' @ interp (ARTICLE ?X)) (join '','' [''k1'', ''k2''])
      = Inr [example_bob]"
    by (simp add: example_externals_fields)
  have k: "clock_reads example_state = 0"
    by (simp add: example_state_def)
  have c: "created example_comment = Some (Num 1700000000)"
      "youtubeLink example_comment \<noteq> []"
    by (simp_all add: example_comment_def)
  show ?thesis
    using getRedditComments_window_on_created
      [OF a example_find_more(2) example_find_more(5) m, of 1699000000000 example_state]
    by (simp add: k c example_notDeleted example_toComment example_externals_fields)
qed

text \<open>
  An entry whose \<open>created_utc\<close> lies before \<open>startDate\<close> is kept, since its
  \<open>created\<close> lies in the window.
\<close>

theorem created_utc_outside_window_is_kept:
  "getRedditComments (example_externals [example_dave, example_more] [] \<lparr> items = None \<rparr>)
      ''/r/partnered/comments/abc123'' (Some 1699000000000) example_state
     = Inr ([\<lparr> author = Some ''dave'', body = Some ''https://youtube.com/@dave'',
               created = Some (Num 1700000000), created_utc = Some (Num 1600000000),
               youtubeLink = ''https://youtube.com/@dave'' \<rparr>],
            example_state\<lparr>clock_reads := 2\<rparr>)
   \<and> \<not> isBetween (moment_unix (Some (Num 1600000000))) (Some 1699000000000)
         (Some 1700000500000)"
proof -
  let ?X = "example_externals [example_dave, example_more] [] \<lparr> items = None \<rparr>"
  have a: "reddit_get_article ?X ''/r/partnered/comments/abc123''
      = Inr ([] # [example_dave, example_more] # [])"
    by (simp add: example_externals_fields)
  have m: "reddit_get_morechildren ?X (''t3_'' @ interp (ARTICLE ?X)) (join '','' [''k1'', ''k2''])
      = Inr []"
    by (simp add: example_externals_fields)
  show ?thesis
    using getRedditComments_with_more
      [OF a example_find_more(4) example_find_more(5) m, of "Some 1699000000000" example_state]
    by (simp add: filter_defs example_notDeleted example_toComment example_externals_fields
          example_state_def)
qed

text \<open>
  C4. A reply whose body is missing or empty gets the bare homepage link, which is not
  empty: in a thread with an overflow marker, such a reply that is not deleted and was
  created inside the window is part of the result of \<open>getRedditComments\<close>.
\<close>

theorem empty_body_comment_is_kept:
  assumes article: "reddit_get_article X a = Inr (post # replies # rest)"
    and more: "find (\<lambda>reply. kind reply = ''more'') replies = Some m"
      "data_children m = Some ids"
      "reddit_get_morechildren X (''t3_'' @ interp (ARTICLE X)) (join '','' ids) = Inr things"
    and child: "child \<in> set (replies @ things)" "notDeleted child"
    and body: "data_body child = None \<or> data_body child = Some []"
    and window: "data_created child = Some (Num secs)" "startMs < secs * 1000"
      "\<forall>k. secs * 1000 < clock X k"
  shows "youtubeLink (toComment youtubeLinkReg child) = ''https://www.youtube.com''
       \<and> (\<exists>comments st'. getRedditComments X a (Some startMs) st = Inr (comments, st')
             \<and> toComment youtubeLinkReg child \<in> set comments)"
proof -
  let ?c = "toComment youtubeLinkReg child"
  have sentinel: "youtubeLink ?c = ''https://www.youtube.com''"
    using body by (auto simp: toComment_def extractYoutubeLink_def)
  have "created ?c = Some (Num secs)"
    using window(1) by (simp add: toComment_def)
  with sentinel window have keep: "\<forall>j. keepItem (Some startMs) (clock X j) ?c"
    by (simp add: keepItem_iff)
  have "?c \<in> set (map (toComment youtubeLinkReg) (filter notDeleted (replies @ things)))"
    using child by auto
  then have "?c \<in> set (selectComments youtubeLinkReg X (Some startMs) (clock_reads st)
                          (replies @ things))"
    unfolding selectComments_def using keep by (rule filterItems_member)
  then show ?thesis
    using sentinel article more by (simp add: getRedditComments_def Let_def)
qed

theorem empty_body_comment_is_kept_witness:
  "youtubeLink (toComment youtubeLinkReg example_erin) = ''https://www.youtube.com''
   \<and> (\<exists>comments st'.
         getRedditComments
           (example_externals [example_alice, example_more] [example_erin] \<lparr> items = None \<rparr>)
           ''/r/partnered/comments/abc123'' (Some 1699000000000) example_state
         = Inr (comments, st')
       \<and> toComment youtubeLinkReg example_erin \<in> set comments)"
proof -
  let ?X = "example_externals [example_alice, example_more] [example_erin] \<lparr> items = None \<rparr>"
  have a: "reddit_get_article ?X ''/r/partnered/comments/abc123''
      = Inr ([] # [example_alice, example_more] # [])"
    by (simp add: example_externals_fields)
  have m: "reddit_get_morechildren ?X (''t3_'' @ interp (ARTICLE ?X)) (join '','' [''k1'', ''k2''])
      = Inr [example_erin]"
    by (simp add: example_externals_fields)
  have child: "example_erin \<in> set ([example_alice, example_more] @ [example_erin])"
    by simp
  have body: "data_body example_erin = None \<or> data_body example_erin = Some []"
    and created: "data_created example_erin = Some (Num 1700000300)"
    by (simp_all add: example_erin_def example_reply_def)
  have lo: "(1699000000000::int) < 1700000300 * 1000"
    by simp
  have hi: "\<forall>k. 1700000300 * 1000 < clock ?X k"
    by (simp add: example_externals_fields)
  show ?thesis
    by (rule empty_body_comment_is_kept
          [OF a example_find_more(2) example_find_more(5) m child example_notDeleted(4) body
              created lo hi])
qed

text \<open>
  A thread whose two replies in the window have an empty and a missing body: both are
  returned, with the homepage link.
\<close>

theorem empty_body_comments_in_output:
  "getRedditComments
      (example_externals [example_carol, example_more] [example_erin] \<lparr> items = None \<rparr>)
      ''/r/partnered/comments/abc123'' (Some 1699000000000) example_state
     = Inr ([\<lparr> author = Some ''carol'', body = Some [],
               created = Some (Num 1700000200), created_utc = Some (Num 1700000200),
               youtubeLink = ''https://www.youtube.com'' \<rparr>,
             \<lparr> author = Some ''erin'', body = None,
               created = Some (Num 1700000300), created_utc = Some (Num 1700000300),
               youtubeLink = ''https://www.youtube.com'' \<rparr>],
            example_state\<lparr>clock_reads := 3\<rparr>)"
proof -
  let ?X = "example_externals [example_carol, example_more] [example_erin] \<lparr> items = None \<rparr>"
  have a: "reddit_get_article ?X ''/r/partnered/comments/abc123''
      = Inr ([] # [example_carol, example_more] # [])"
    by (simp add: example_externals_fields)
  have m: "reddit_get_morechildren ?X (''t3_'' @ interp (ARTICLE ?X)) (join '','' [''k1'', ''k2''])
      = Inr [example_erin]"
    by (simp add: example_externals_fields)
  show ?thesis
    using getRedditComments_with_more
      [OF a example_find_more(3) example_find_more(5) m, of "Some 1699000000000" example_state]
    by (simp add: filter_defs example_notDeleted example_toComment example_externals_fields
          example_state_def)
qed

section \<open>Properties of the link pattern\<close>

lemma youtubeLinkReg_skip:
  "(\<forall>i<length pre. youtubeLinkReg_here (drop i (pre @ s)) = None)
     \<Longrightarrow> youtubeLinkReg (pre @ s) = youtubeLinkReg s"
proof (induction pre)
  case Nil
  then show ?case by simp
next
  case (Cons c pre)
  from Cons.prems have here: "youtubeLinkReg_here (c # pre @ s) = None"
    by auto
  from Cons.prems have "\<forall>i<length pre. youtubeLinkReg_here (drop i (pre @ s)) = None"
    by (auto simp: All_less_Suc2)
  with Cons.IH here show ?case by simp
qed

lemma youtubeLinkReg_at_start:
  "youtubeLinkReg_here s = Some m \<Longrightarrow> youtubeLinkReg s = Some m"
  by (cases s) (simp_all add: youtubeLinkReg_here_def startsWith_def)

lemma youtubeLinkReg_here_forms:
  "youtubeLinkReg_here (''https://www.youtube.com'' @ tail)
     = Some (''https://www.youtube.com'' @ takeWhile isLinkChar tail)"
  "youtubeLinkReg_here (''https://youtube.com'' @ tail)
     = Some (''https://youtube.com'' @ takeWhile isLinkChar tail)"
  by (simp_all add: youtubeLinkReg_here_def startsWith_def)

lemma youtubeLinkReg_mobile:
  "youtubeLinkReg (''https://m.youtube.com'' @ tail) = youtubeLinkReg tail"
  by (simp add: youtubeLinkReg_here_def startsWith_def)

text \<open>
  C5. Let the body hold one of the three forms of the link at the first place where a
  match could start. For the form with \<open>www.\<close> and for the bare domain the extracted
  link is that form followed by the text up to the first white space, bracket or
  parenthesis. For the mobile form \<open>m.\<close> the pattern does not match there: what is
  extracted is the match in the text after it, or the empty string when there is none.
\<close>

theorem extractYoutubeLink_forms:
  assumes first: "\<forall>i<length pre. youtubeLinkReg_here (drop i (pre @ form @ tail)) = None"
  shows "(form = ''https://www.youtube.com'' \<or> form = ''https://youtube.com'' \<longrightarrow>
            extractYoutubeLink youtubeLinkReg (Some (pre @ form @ tail))
              = form @ takeWhile isLinkChar tail)
       \<and> (form = ''https://m.youtube.com'' \<longrightarrow>
            extractYoutubeLink youtubeLinkReg (Some (pre @ form @ tail))
              = (case youtubeLinkReg tail of None \<Rightarrow> [] | Some m \<Rightarrow> m))"
proof -
  have skip: "youtubeLinkReg (pre @ form @ tail) = youtubeLinkReg (form @ tail)"
    using first by (rule youtubeLinkReg_skip)
  have nonempty: "form \<noteq> [] \<Longrightarrow> pre @ form @ tail \<noteq> []"
    by simp
  show ?thesis
    using skip youtubeLinkReg_here_forms [THEN youtubeLinkReg_at_start, of tail]
      youtubeLinkReg_mobile [of tail]
    by (auto simp: extractYoutubeLink_def)
qed

theorem extractYoutubeLink_forms_witness:
  "extractYoutubeLink youtubeLinkReg (Some ''see https://www.youtube.com/@chan for more'')
     = ''https://www.youtube.com/@chan''
   \<and> extractYoutubeLink youtubeLinkReg (Some ''see https://youtube.com/@chan) for more'')
     = ''https://youtube.com/@chan''
   \<and> extractYoutubeLink youtubeLinkReg (Some ''see https://m.youtube.com/@chan for more'')
     = []"
proof -
  have h: "\<forall>i<length ''see ''. youtubeLinkReg_here (drop i (''see '' @ form @ tail)) = None"
    for form tail
    by (simp add: All_less_Suc2 youtubeLinkReg_here_def startsWith_def)
  show ?thesis
    using extractYoutubeLink_forms [OF h, of "''https://www.youtube.com''" "''/@chan for more''"]
      extractYoutubeLink_forms [OF h, of "''https://youtube.com''" "''/@chan) for more''"]
      extractYoutubeLink_forms [OF h, of "''https://m.youtube.com''" "''/@chan for more''"]
    by (simp add: isLinkChar_def isWhiteSpace_def youtubeLinkReg_here_def startsWith_def)
qed

section \<open>Properties of main\<close>

lemma setFlair_file:
  "setFlair X v st = Inr st' \<Longrightarrow> approved_json st' = approved_json st"
  by (auto simp: setFlair_def Let_def split: option.splits if_splits)

lemma verifyChannel_file:
  "verifyChannel X c skip st = Inr (r, st') \<Longrightarrow> approved_json st' = approved_json st"
  by (auto simp: verifyChannel_def split: sum.splits option.splits list.splits if_splits)

lemma updateFlairForApprovedLinks_file:
  "updateFlairForApprovedLinks X links st = Inr st' \<Longrightarrow> approved_json st' = approved_json st"
proof (induction links arbitrary: st)
  case Nil
  then show ?case by simp
next
  case (Cons link rest)
  then show ?case
    by (auto simp: Let_def split: sum.splits option.splits
             dest!: verifyChannel_file setFlair_file)
qed

lemma verifyComments_file:
  "verifyComments X comments st = Inr st' \<Longrightarrow> approved_json st' = approved_json st"
proof (induction comments arbitrary: st)
  case Nil
  then show ?case by simp
next
  case (Cons c rest)
  then show ?case
    by (auto split: sum.splits option.splits dest!: verifyChannel_file setFlair_file)
qed

lemma getRedditComments_file:
  "getRedditComments X a sd st = Inr (comments, st') \<Longrightarrow> approved_json st' = approved_json st"
  by (auto simp: getRedditComments_def Let_def split: sum.splits option.splits list.splits)

text \<open>
  C2. A run of \<open>main\<close> that completes leaves \<open>approved.json\<close> as it was: \<open>main\<close>
  does not call \<open>writeApprovedLinksToFile\<close>. Called on the state \<open>main\<close> ends in,
  \<open>writeApprovedLinksToFile\<close> writes the whole list of approved links together with
  a \<open>lastChecked\<close> time stamp read from the clock at that call.
\<close>

theorem main_leaves_file_untouched:
  assumes "main X st = Inr st'"
  shows "approved_json st' = approved_json st
       \<and> approved_json (writeApprovedLinksToFile X st')
           = Some (Document \<lparr> lastChecked = Some (toISOString X (clock X (clock_reads st'))),
                              stored_approvedLinks = approvedLinks st' \<rparr>)"
proof -
  have "approved_json st' = approved_json st"
    using assms
    by (auto simp: main_def Let_def split: sum.splits option.splits if_splits prod.splits
             dest!: updateFlairForApprovedLinks_file getRedditComments_file verifyComments_file)
  then show ?thesis
    by (simp add: writeApprovedLinksToFile_def)
qed

lemma example_setFlair:
  "author c = Some ''alice'' \<Longrightarrow>
   setFlair (example_externals replies things response)
     \<lparr> reddit_comment = c, youtube_snippet = snip,
       youtube_statistics = Some \<lparr> subscriberCount = Some ''50000'', viewCount = Some ''200000'' \<rparr> \<rparr>
     st
   = Inr (st\<lparr>posted := posted st @ [example_badge]\<rparr>)"
  by (simp add: setFlair_def Let_def example_numbers flairTemplateId_def flairEmojiId_def
        config_defs example_externals_fields example_env_values or_default_None interp_def
        example_badge_def)

lemma example_verify:
  assumes "author c = Some ''alice''"
    and "youtubeLink c = ''https://www.youtube.com/channel/UC123''"
    and "created_utc c = Some (Num 1700000000)"
  shows "verifyChannel (example_externals replies things example_response) c skip st
    = Inr (Some \<lparr> reddit_comment = c,
                  youtube_snippet = \<lparr> description = Some ''I'm u/alice, welcome!'' \<rparr>,
                  youtube_statistics =
                    Some \<lparr> subscriberCount = Some ''50000'', viewCount = Some ''200000'' \<rparr> \<rparr>,
           st\<lparr>approvedLinks := approvedLinks st @ [example_approved]\<rparr>)"
  using assms
  by (simp add: verifyChannel_def example_externals_fields interp_def example_response_def
        example_proof_check example_link example_channel_def upcase_def str_includes_def
        startsWith_def channelsListParams_def example_approved_def)

lemma example_parseInt: "parseInt ''1700000000'' = Num 1700000000"
  by (simp add: parseInt_def Let_def isDigit_def)

lemma example_selection:
  "selectComments youtubeLinkReg (example_externals replies things response) sd k
      [example_alice, example_more]
     = (if isBetween (Some 1700000000000) sd (Some (1700000500000 + int k))
        then [example_comment] else [])"
  by (simp add: filter_defs example_notDeleted example_toComment example_externals_fields
        example_comment_def)

lemma main_first_run:
  assumes "readApprovedLinksFromFile st = Inr file"
    and "lastChecked file = None"
    and "updateFlairForApprovedLinks X (stored_approvedLinks file)
           (st\<lparr>approvedLinks := approvedLinks st @ stored_approvedLinks file\<rparr>) = Inr st2"
    and "getRedditComments X (interp (SUBREDDIT X) @ ''/comments/'' @ interp (ARTICLE X))
           (moment_subtract_days X (clock X (clock_reads st2)) (PREVIOUS_DAYS X))
           (st2\<lparr>clock_reads := Suc (clock_reads st2)\<rparr>) = Inr (comments, st4)"
  shows "main X st = verifyComments X comments st4"
  using assms by (simp add: main_def Let_def)

lemma main_later_run:
  assumes "readApprovedLinksFromFile st = Inr file"
    and "lastChecked file = Some lc" "lc \<noteq> []"
    and "updateFlairForApprovedLinks X (stored_approvedLinks file)
           (st\<lparr>approvedLinks := approvedLinks st @ stored_approvedLinks file\<rparr>) = Inr st2"
    and "getRedditComments X (interp (SUBREDDIT X) @ ''/comments/'' @ interp (ARTICLE X))
           (moment_utc_parse X lc) st2 = Inr (comments, st4)"
  shows "main X st = verifyComments X comments st4"
  using assms by (simp add: main_def Let_def)

lemma example_fetch:
  "getRedditComments (example_externals [example_alice, example_more] [] response) a sd st
     = Inr (if isBetween (Some 1700000000000) sd (Some (1700000500000 + int (clock_reads st)))
            then [example_comment] else [],
            st\<lparr>clock_reads := clock_reads st + 2\<rparr>)"
proof -
  let ?X = "example_externals [example_alice, example_more] [] response"
  have a: "reddit_get_article ?X a = Inr ([] # [example_alice, example_more] # [])"
    by (simp add: example_externals_fields)
  have m: "reddit_get_morechildren ?X (''t3_'' @ interp (ARTICLE ?X)) (join '','' [''k1'', ''k2''])
      = Inr []"
    by (simp add: example_externals_fields)
  show ?thesis
    using getRedditComments_with_more [OF a example_find_more(2) example_find_more(5) m, of sd st]
    by (simp add: example_selection example_notDeleted)
qed

lemma example_comment_fields:
  "author example_comment = Some ''alice''"
  "youtubeLink example_comment = ''https://www.youtube.com/channel/UC123''"
  "created_utc example_comment = Some (Num 1700000000)"
  by (simp_all add: example_comment_def)

lemma example_verifyComments:
  "verifyComments (example_externals replies things example_response) [example_comment] st
     = Inr (st\<lparr>approvedLinks := approvedLinks st @ [example_approved],
               posted := posted st @ [example_badge]\<rparr>)"
  by (simp add: example_verify [OF example_comment_fields]
        example_setFlair [OF example_comment_fields(1)])

text \<open>
  A first run on a thread with one comment that is verified: \<open>main\<close> completes with
  the approved link in memory and the badge written, and \<open>approved.json\<close> still does
  not exist.
\<close>

theorem main_completes_without_writing:
  "main (example_externals [example_alice, example_more] [] example_response) example_state
     = Inr \<lparr> approvedLinks = [example_approved], approved_json = None,
             posted = [example_badge], clock_reads = 3 \<rparr>"
proof -
  let ?X = "example_externals [example_alice, example_more] [] example_response"
  have r: "readApprovedLinksFromFile example_state
      = Inr \<lparr> lastChecked = None, stored_approvedLinks = [] \<rparr>"
    by (simp add: readApprovedLinksFromFile_def example_state_def)
  have u: "updateFlairForApprovedLinks ?X
      (stored_approvedLinks \<lparr> lastChecked = None, stored_approvedLinks = [] \<rparr>)
      (example_state\<lparr>approvedLinks := approvedLinks example_state
          @ stored_approvedLinks \<lparr> lastChecked = None, stored_approvedLinks = [] \<rparr>\<rparr>)
      = Inr example_state"
    by (simp add: example_state_def)
  have f: "getRedditComments ?X (interp (SUBREDDIT ?X) @ ''/comments/'' @ interp (ARTICLE ?X))
      (moment_subtract_days ?X (clock ?X (clock_reads example_state)) (PREVIOUS_DAYS ?X))
      (example_state\<lparr>clock_reads := Suc (clock_reads example_state)\<rparr>)
      = Inr ([example_comment], example_state\<lparr>clock_reads := 3\<rparr>)"
    by (simp add: example_fetch example_externals_fields example_state_def isBetween_def
          isAfter_def isBefore_def)
  have lc: "lastChecked \<lparr> lastChecked = None, stored_approvedLinks = [] \<rparr> = None"
    by simp
  show ?thesis
    unfolding main_first_run [OF r lc u f]
    by (simp add: example_verifyComments example_state_def del: verifyComments.simps)
qed

lemma example_updateFlair:
  "updateFlairForApprovedLinks (example_externals replies things example_response)
      [example_approved] st
     = Inr (st\<lparr>approvedLinks := approvedLinks st @ [example_approved],
               posted := posted st @ [example_badge]\<rparr>)"
proof -
  let ?c = "\<lparr> author = userId example_approved, body = Some [], created = Some (Num 0),
              created_utc = Some (parseInt (commentId example_approved)),
              youtubeLink = channelLink example_approved \<rparr>"
  have c: "author ?c = Some ''alice''"
      "youtubeLink ?c = ''https://www.youtube.com/channel/UC123''"
      "created_utc ?c = Some (Num 1700000000)"
    by (simp_all add: example_approved_def example_parseInt)
  show ?thesis
    by (simp add: Let_def example_verify [OF c] example_setFlair [OF c(1)])
qed

lemma example_main_later_run:
  "main (example_externals [example_alice, example_more] [] example_response)
      example_stored_state
     = Inr \<lparr> approvedLinks = [example_approved, example_approved, example_approved],
             approved_json = Some (Document \<lparr> lastChecked = Some ''2023-11-01T00:00:00.000Z'',
                                              stored_approvedLinks = [example_approved] \<rparr>),
             posted = [example_badge, example_badge], clock_reads = 2 \<rparr>"
proof -
  let ?X = "example_externals [example_alice, example_more] [] example_response"
  let ?file = "\<lparr> lastChecked = Some ''2023-11-01T00:00:00.000Z'',
                 stored_approvedLinks = [example_approved] \<rparr>"
  let ?st2 = "example_stored_state\<lparr>approvedLinks := [example_approved, example_approved],
                posted := [example_badge]\<rparr>"
  have r: "readApprovedLinksFromFile example_stored_state = Inr ?file"
    by (simp add: readApprovedLinksFromFile_def example_stored_state_def)
  have lc: "lastChecked ?file = Some ''2023-11-01T00:00:00.000Z''"
      "''2023-11-01T00:00:00.000Z'' \<noteq> []"
    by simp_all
  have u: "updateFlairForApprovedLinks ?X (stored_approvedLinks ?file)
      (example_stored_state\<lparr>approvedLinks := approvedLinks example_stored_state
          @ stored_approvedLinks ?file\<rparr>)
      = Inr ?st2"
    by (simp add: example_updateFlair example_stored_state_def
          del: updateFlairForApprovedLinks.simps)
  have f: "getRedditComments ?X (interp (SUBREDDIT ?X) @ ''/comments/'' @ interp (ARTICLE ?X))
      (moment_utc_parse ?X ''2023-11-01T00:00:00.000Z'') ?st2
      = Inr ([example_comment], ?st2\<lparr>clock_reads := 2\<rparr>)"
    by (simp add: example_fetch example_externals_fields example_stored_state_def isBetween_def
          isAfter_def isBefore_def)
  show ?thesis
    unfolding main_later_run [OF r lc u f]
    by (simp add: example_verifyComments example_stored_state_def del: verifyComments.simps)
qed

theorem main_leaves_file_untouched_witness:
  "approved_json example_stored_state
     = Some (Document \<lparr> lastChecked = Some ''2023-11-01T00:00:00.000Z'',
                        stored_approvedLinks = [example_approved] \<rparr>)
   \<and> (\<exists>st'. main (example_externals [example_alice, example_more] [] example_response)
                example_stored_state = Inr st'
          \<and> approved_json st' = approved_json example_stored_state
          \<and> approved_json
               (writeApprovedLinksToFile
                  (example_externals [example_alice, example_more] [] example_response) st')
              = Some (Document
                   \<lparr> lastChecked = Some ''2023-11-14T22:21:40.000Z'',
                     stored_approvedLinks =
                       [example_approved, example_approved, example_approved] \<rparr>))"
  using main_leaves_file_untouched [OF example_main_later_run] example_main_later_run
  by (simp add: example_externals_fields example_stored_state_def)

end
